theory Spec2Isabelle
  imports Main "HOL-Library.Word" "HOL-Library.Log_Nat"
begin

section \<open>Data model\<close>

text \<open>
  The two sketches (\<^verbatim>\<open>atlas-statsd.ino\<close> and its debug-macro sibling) declare the same
  types and globals.  A \<^verbatim>\<open>byte\<close> is an 8-bit word, a \<^verbatim>\<open>String\<close> is a list of characters
  (HOL characters are bytes), an \<^verbatim>\<open>int\<close> is an integer.
\<close>

type_synonym byte = "8 word"

datatype chip_type = ph | ec | orp | dissolved_oxygen

datatype chip_mode = i2c | serial

record atlas_chip =
  type :: chip_type
  mode :: chip_mode
  address :: byte
  data :: string

subsection \<open>Floating point values\<close>

text \<open>
  \<^verbatim>\<open>float\<close> and \<^verbatim>\<open>double\<close> values are modelled by their exact rational value, or one of
  the three special values.  The two zeros are identified: no comparison of the program
  tells them apart.  Every \<^verbatim>\<open>float\<close> value is a \<^verbatim>\<open>double\<close> value, so the promotion of a
  \<^verbatim>\<open>float\<close> operand to \<^verbatim>\<open>double\<close> is the identity and is not written.
\<close>

datatype fp = Fin rat | PInf | NInf | NaN

definition pow2 :: "int \<Rightarrow> rat" where
  "pow2 e = (if 0 \<le> e then 2 ^ nat e else 1 / 2 ^ nat (- e))"

text \<open>\<open>binexp q\<close> is the exponent \<open>e\<close> with \<open>2 ^ e \<le> \<bar>q\<bar> < 2 ^ (e + 1)\<close>, for \<open>q \<noteq> 0\<close>.\<close>

definition binexp :: "rat \<Rightarrow> int" where
  "binexp q =
     (let (a, b) = quotient_of \<bar>q\<bar>;
          e = bitlen a - bitlen b
      in if pow2 e \<le> \<bar>q\<bar> then e else e - 1)"

text \<open>Rounding to the nearest integer, ties to the even one.\<close>

definition round_even :: "rat \<Rightarrow> int" where
  "round_even q =
     (let f = \<lfloor>q\<rfloor>; r = q - of_int f
      in if r < 1 / 2 then f
         else if 1 / 2 < r then f + 1
         else if even f then f else f + 1)"

text \<open>
  IEEE 754 round-to-nearest-even to a binary format with \<open>p\<close> significand bits and
  largest exponent \<open>emax\<close> (subnormal below \<open>2 ^ (1 - emax)\<close>, overflow to infinity).
\<close>

definition ieee_round :: "nat \<Rightarrow> int \<Rightarrow> rat \<Rightarrow> fp" where
  "ieee_round p emax q =
     (if q = 0 then Fin 0
      else
        let e = max (binexp q) (1 - emax);
            ulp = pow2 (e - int p + 1);
            r = of_int (round_even (q / ulp)) * ulp
        in if r \<noteq> 0 \<and> emax < binexp r then (if 0 < q then PInf else NInf) else Fin r)"

definition double_of_rat :: "rat \<Rightarrow> fp" where
  "double_of_rat = ieee_round 53 1023"

definition float_of_rat :: "rat \<Rightarrow> fp" where
  "float_of_rat = ieee_round 24 127"

text \<open>The conversion of a \<^verbatim>\<open>double\<close> to \<^verbatim>\<open>float\<close> (an assignment to a \<^verbatim>\<open>float\<close> variable).\<close>

definition to_float :: "fp \<Rightarrow> fp" where
  "to_float x = (case x of Fin q \<Rightarrow> float_of_rat q | _ \<Rightarrow> x)"

text \<open>Subtraction of two \<^verbatim>\<open>double\<close> values.\<close>

definition fp_sub :: "fp \<Rightarrow> fp \<Rightarrow> fp" where
  "fp_sub x y =
     (case (x, y) of
        (Fin a, Fin b) \<Rightarrow> double_of_rat (a - b)
      | (NaN, _) \<Rightarrow> NaN
      | (_, NaN) \<Rightarrow> NaN
      | (PInf, PInf) \<Rightarrow> NaN
      | (NInf, NInf) \<Rightarrow> NaN
      | (PInf, _) \<Rightarrow> PInf
      | (NInf, _) \<Rightarrow> NInf
      | (Fin a, PInf) \<Rightarrow> NInf
      | (Fin a, NInf) \<Rightarrow> PInf)"

definition fabs :: "fp \<Rightarrow> fp" where
  "fabs x = (case x of Fin q \<Rightarrow> Fin \<bar>q\<bar> | NInf \<Rightarrow> PInf | _ \<Rightarrow> x)"

text \<open>The comparison \<^verbatim>\<open>x > y\<close>; it is false when an operand is not a number.\<close>

definition fp_gt :: "fp \<Rightarrow> fp \<Rightarrow> bool" where
  "fp_gt x y =
     (case (x, y) of
        (Fin a, Fin b) \<Rightarrow> b < a
      | (NaN, _) \<Rightarrow> False
      | (_, NaN) \<Rightarrow> False
      | (PInf, PInf) \<Rightarrow> False
      | (PInf, _) \<Rightarrow> True
      | (NInf, _) \<Rightarrow> False
      | (Fin a, PInf) \<Rightarrow> False
      | (Fin a, NInf) \<Rightarrow> True)"

subsection \<open>\<^verbatim>\<open>atof\<close>\<close>

text \<open>
  \<^verbatim>\<open>atof(s)\<close> is \<^verbatim>\<open>strtod(s, NULL)\<close> of the C library: white space is skipped, then an
  optional sign, then the longest initial part that is a decimal or hexadecimal floating
  constant, an infinity or a NaN is converted; when there is none, the result is zero.
\<close>

definition isspace :: "char \<Rightarrow> bool" where
  "isspace c = (c \<in> set [CHR '' '', CHR 0x09, CHR 0x0A, CHR 0x0B, CHR 0x0C, CHR 0x0D])"

definition isdigit :: "char \<Rightarrow> bool" where
  "isdigit c = (48 \<le> (of_char c :: nat) \<and> (of_char c :: nat) \<le> 57)"

definition isxdigit :: "char \<Rightarrow> bool" where
  "isxdigit c =
     (isdigit c \<or> (65 \<le> (of_char c :: nat) \<and> (of_char c :: nat) \<le> 70)
      \<or> (97 \<le> (of_char c :: nat) \<and> (of_char c :: nat) \<le> 102))"

definition tolower :: "char \<Rightarrow> char" where
  "tolower c =
     (if 65 \<le> (of_char c :: nat) \<and> (of_char c :: nat) \<le> 90
      then char_of ((of_char c :: nat) + 32) else c)"

definition digit_value :: "char \<Rightarrow> nat" where
  "digit_value c =
     (if isdigit c then of_char c - 48
      else if 97 \<le> (of_char c :: nat) then of_char c - 87
      else of_char c - 55)"

definition number_of :: "int \<Rightarrow> string \<Rightarrow> int" where
  "number_of base ds = foldl (\<lambda>a c. base * a + int (digit_value c)) 0 ds"

definition pow10 :: "int \<Rightarrow> rat" where
  "pow10 e = (if 0 \<le> e then 10 ^ nat e else 1 / 10 ^ nat (- e))"

definition scan_sign :: "string \<Rightarrow> bool \<times> string" where
  "scan_sign s =
     (case s of
        [] \<Rightarrow> (False, s)
      | c # r \<Rightarrow>
          if c = CHR ''-'' then (True, r)
          else if c = CHR ''+'' then (False, r)
          else (False, s))"

text \<open>
  The optional exponent part after the digits: the letter \<open>marker\<close> (in either case), an
  optional sign and at least one decimal digit; its value, or 0 when it is absent.
\<close>

definition scan_exponent :: "char \<Rightarrow> string \<Rightarrow> int" where
  "scan_exponent marker s =
     (case s of
        [] \<Rightarrow> 0
      | c # r \<Rightarrow>
          if tolower c = marker then
            let (neg, r') = scan_sign r;
                ds = takeWhile isdigit r'
            in if ds = [] then 0
               else if neg then - number_of 10 ds
               else number_of 10 ds
          else 0)"

text \<open>The digits after a radix character, and what follows them.\<close>

definition scan_fraction :: "(char \<Rightarrow> bool) \<Rightarrow> string \<Rightarrow> string \<times> string" where
  "scan_fraction isd s =
     (case s of
        [] \<Rightarrow> ([], s)
      | c # r \<Rightarrow>
          if c = CHR ''.'' then (takeWhile isd r, dropWhile isd r)
          else ([], s))"

definition scan_decimal :: "string \<Rightarrow> rat option" where
  "scan_decimal s =
     (let ip = takeWhile isdigit s;
          (fp, rest) = scan_fraction isdigit (dropWhile isdigit s)
      in if ip = [] \<and> fp = [] then None
         else Some (of_int (number_of 10 (ip @ fp))
                * pow10 (scan_exponent CHR ''e'' rest - int (length fp))))"

definition scan_hex :: "string \<Rightarrow> rat option" where
  "scan_hex s =
     (case s of
        z # x # r \<Rightarrow>
          if z = CHR ''0'' \<and> tolower x = CHR ''x'' then
            let ip = takeWhile isxdigit r;
                (fp, rest) = scan_fraction isxdigit (dropWhile isxdigit r)
            in if ip = [] \<and> fp = [] then None
               else Some (of_int (number_of 16 (ip @ fp))
                      * pow2 (scan_exponent CHR ''p'' rest - 4 * int (length fp)))
          else None
      | _ \<Rightarrow> None)"

definition atof :: "string \<Rightarrow> fp" where
  "atof s =
     (let (neg, r) = scan_sign (dropWhile isspace s)
      in if map tolower (take 3 r) = ''inf'' then (if neg then NInf else PInf)
         else if map tolower (take 3 r) = ''nan'' then NaN
         else
           case scan_hex r of
             Some q \<Rightarrow> double_of_rat (if neg then - q else q)
           | None \<Rightarrow>
               (case scan_decimal r of
                  Some q \<Rightarrow> double_of_rat (if neg then - q else q)
                | None \<Rightarrow> Fin 0))"

subsection \<open>The machine\<close>

text \<open>
  What the hardware did is kept in \<open>trace\<close>: every I2C transmission, every delay and
  every I2C read request, in program order.  The peripheral's answers are an input:
  \<open>bus_replies\<close> holds, for each coming read request, the bytes that \<^verbatim>\<open>Wire.read()\<close> will
  deliver after it.  \<open>stack_garbage\<close> holds the indeterminate bytes found in memory from
  the last element of the local array of \<^verbatim>\<open>chip_command\<close> onwards; the program never
  writes them.  Capacity limits of the library buffers are not modelled.
\<close>

datatype event =
    Transmit byte string
  | Delay int
  | Request byte int
  | DeepSleep int

type_synonym ip_address = "nat \<times> nat \<times> nat \<times> nat"

type_synonym datagram = "ip_address \<times> nat \<times> string"

datatype serial_item = Text string | IntText int | FloatText fp

record machine =
  ph_chip :: atlas_chip
  last_reading :: fp
  device_id :: string
  wire_tx :: "(byte \<times> string) option"
  wire_rx :: "byte list"
  bus_replies :: "byte list list"
  stack_garbage :: string
  trace :: "event list"
  udp_packet :: "datagram option"
  udp_sent :: "datagram list"
  serial_out :: "serial_item list list"

definition udp_local_port :: nat where
  "udp_local_port = 8888"

definition remoteIP :: ip_address where
  "remoteIP = (159, 203, 144, 95)"

text \<open>\<^verbatim>\<open>float delta_to_publish = 0.05;\<close> the literal is a \<^verbatim>\<open>double\<close>, stored in a \<^verbatim>\<open>float\<close>.\<close>

definition delta_to_publish :: fp where
  "delta_to_publish = to_float (double_of_rat (5 / 100))"

subsection \<open>Library calls\<close>

definition Wire_beginTransmission :: "byte \<Rightarrow> machine \<Rightarrow> machine" where
  "Wire_beginTransmission a s = s\<lparr>wire_tx := Some (a, [])\<rparr>"

definition Wire_write :: "string \<Rightarrow> machine \<Rightarrow> machine" where
  "Wire_write str s =
     (case wire_tx s of
        None \<Rightarrow> s
      | Some (a, buf) \<Rightarrow> s\<lparr>wire_tx := Some (a, buf @ str)\<rparr>)"

definition Wire_endTransmission :: "machine \<Rightarrow> machine" where
  "Wire_endTransmission s =
     (case wire_tx s of
        None \<Rightarrow> s
      | Some (a, buf) \<Rightarrow> s\<lparr>wire_tx := None, trace := trace s @ [Transmit a buf]\<rparr>)"

definition delay :: "int \<Rightarrow> machine \<Rightarrow> machine" where
  "delay ms s = s\<lparr>trace := trace s @ [Delay ms]\<rparr>"

text \<open>A read request replaces the receive buffer by the peripheral's next answer.\<close>

definition Wire_requestFrom :: "byte \<Rightarrow> int \<Rightarrow> machine \<Rightarrow> machine" where
  "Wire_requestFrom a quantity s =
     s\<lparr>wire_rx := (case bus_replies s of [] \<Rightarrow> [] | r # _ \<Rightarrow> take (nat quantity) r),
       bus_replies := tl (bus_replies s),
       trace := trace s @ [Request a quantity]\<rparr>"

text \<open>\<^verbatim>\<open>Wire.read()\<close> returns the next byte of the receive buffer, or \<open>-1\<close> when it is empty.\<close>

definition Wire_read :: "machine \<Rightarrow> int \<times> machine" where
  "Wire_read s =
     (case wire_rx s of
        [] \<Rightarrow> (- 1, s)
      | b # bs \<Rightarrow> (uint b, s\<lparr>wire_rx := bs\<rparr>))"

text \<open>\<^verbatim>\<open>String(const char *)\<close> copies the characters up to the first zero byte.\<close>

definition String_of_chars :: "string \<Rightarrow> string" where
  "String_of_chars mem = takeWhile (\<lambda>c. c \<noteq> CHR 0x00) mem"

definition udp_beginPacket :: "ip_address \<Rightarrow> nat \<Rightarrow> machine \<Rightarrow> machine" where
  "udp_beginPacket ip port s = s\<lparr>udp_packet := Some (ip, port, [])\<rparr>"

definition udp_write :: "string \<Rightarrow> machine \<Rightarrow> machine" where
  "udp_write str s =
     (case udp_packet s of
        None \<Rightarrow> s
      | Some (ip, port, buf) \<Rightarrow> s\<lparr>udp_packet := Some (ip, port, buf @ str)\<rparr>)"

definition udp_endPacket :: "machine \<Rightarrow> machine" where
  "udp_endPacket s =
     (case udp_packet s of
        None \<Rightarrow> s
      | Some d \<Rightarrow> s\<lparr>udp_packet := None, udp_sent := udp_sent s @ [d]\<rparr>)"

definition Serial_println :: "serial_item list \<Rightarrow> machine \<Rightarrow> machine" where
  "Serial_println line s = s\<lparr>serial_out := serial_out s @ [line]\<rparr>"

section \<open>The sketch \<^verbatim>\<open>atlas-statsd.ino\<close>\<close>

subsection \<open>\<^verbatim>\<open>chip_command\<close>\<close>

definition pending_message :: string where
  "pending_message =
     ''Pending - the request is still being processed. Ensure that you have waited the minimum time to guarantee a repsonse''"

definition no_data_message :: string where
  "no_data_message =
     ''No Data - there is no pending request, so there is no data to return from the circuit''"

text \<open>
  The \<^verbatim>\<open>for\<close> loop of case 1.  It writes \<^verbatim>\<open>reading[0]\<close>, \<^verbatim>\<open>reading[1]\<close>, ... in this order,
  so \<open>reading\<close> is the part of the array written so far, of length \<open>byte_num\<close>.  The
  assignment to a \<^verbatim>\<open>char\<close> keeps the low eight bits of what \<^verbatim>\<open>Wire.read()\<close> returned.
\<close>

function read_loop :: "int \<Rightarrow> int \<Rightarrow> string \<Rightarrow> machine \<Rightarrow> string \<times> machine" where
  "read_loop byte_num response_size reading s =
     (if byte_num < response_size - 1 then
        let (b, s') = Wire_read s
        in read_loop (byte_num + 1) response_size (reading @ [char_of b]) s'
      else (reading, s))"
  by pat_completeness auto
termination
  by (relation "measure (\<lambda>(byte_num, response_size, reading, s). nat (response_size - 1 - byte_num))")
    auto

declare read_loop.simps [simp del]

text \<open>
  The array \<^verbatim>\<open>reading\<close> has \<open>response_size\<close> elements, of which the loop writes the first
  \<open>response_size - 1\<close>; nothing writes a terminator.  \<^verbatim>\<open>String(reading)\<close> therefore reads
  the written characters followed by \<open>stack_garbage\<close>, up to the first zero byte (the
  modelled memory ends where \<open>stack_garbage\<close> ends).  The callers pass the sizes 0, 7, 8,
  14 and 32; a negative size, for which the array itself is undefined, is not among them.
\<close>

definition chip_command :: "string \<Rightarrow> byte \<Rightarrow> int \<Rightarrow> int \<Rightarrow> machine \<Rightarrow> string \<times> machine" where
  "chip_command command chip_address read_delay response_size s0 =
     (let response_data = [];
          s1 = Wire_beginTransmission chip_address s0;
          s2 = Wire_write command s1;
          s3 = Wire_endTransmission s2;
          s4 = delay read_delay s3
      in if response_size = 0 then (response_data, s4)
         else
           let s5 = Wire_requestFrom chip_address response_size s4;
               (response_code, s6) = Wire_read s5
           in if response_code = 1 then
                let (reading, s7) = read_loop 0 response_size [] s6
                in (String_of_chars (reading @ stack_garbage s7), s7)
              else if response_code = 2 then (''Request Failed'', s6)
              else if response_code = 254 then (pending_message, s6)
              else if response_code = 255 then (no_data_message, s6)
              else (response_data, s6))"

subsection \<open>\<^verbatim>\<open>get_reading\<close>\<close>

text \<open>
  The function gets a pointer to the chip; the model takes the chip pointed to and returns
  it with the assignment to \<^verbatim>\<open>chip->data\<close> done, for the caller to store back.
\<close>

definition get_reading :: "atlas_chip \<Rightarrow> machine \<Rightarrow> atlas_chip \<times> machine" where
  "get_reading chip s =
     (case type chip of
        ph \<Rightarrow>
          let (r, s') = chip_command ''R'' (address chip) 1000 7 s
          in (chip\<lparr>data := r\<rparr>, s')
      | ec \<Rightarrow>
          let (r, s') = chip_command ''R'' (address chip) 1000 32 s
          in (chip\<lparr>data := r\<rparr>, s')
      | orp \<Rightarrow>
          let (r, s') = chip_command ''R'' (address chip) 1000 8 s
          in (chip\<lparr>data := r\<rparr>, s')
      | dissolved_oxygen \<Rightarrow>
          let (r, s') = chip_command ''R'' (address chip) 1000 14 s
          in (chip\<lparr>data := r\<rparr>, s'))"

subsection \<open>\<^verbatim>\<open>publish_data\<close>\<close>

definition publish_data :: "string \<Rightarrow> machine \<Rightarrow> machine" where
  "publish_data d s0 =
     (let s1 = udp_beginPacket remoteIP udp_local_port s0;
          s2 = udp_write (''aqpncs.'' @ device_id s1 @ '':'' @ d @ ''|g'') s1
      in udp_endPacket s2)"

subsection \<open>\<^verbatim>\<open>chip_sleep\<close> and \<^verbatim>\<open>chip_wake\<close>\<close>

definition chip_sleep :: "atlas_chip \<Rightarrow> machine \<Rightarrow> machine" where
  "chip_sleep chip s =
     (let sleep_command = ''SLEEP'';
          processing_delay = 300;
          expected_response = 0
      in snd (chip_command sleep_command (address chip) processing_delay expected_response s))"

text \<open>The value of an enumerator, as \<^verbatim>\<open>String(chip.type)\<close> prints it.\<close>

definition chip_type_value :: "chip_type \<Rightarrow> int" where
  "chip_type_value t = (case t of ph \<Rightarrow> 0 | ec \<Rightarrow> 1 | orp \<Rightarrow> 2 | dissolved_oxygen \<Rightarrow> 3)"

function wake_loop :: "int \<Rightarrow> int \<Rightarrow> atlas_chip \<Rightarrow> machine \<Rightarrow> machine" where
  "wake_loop reading required_readings chip s =
     (if reading < required_readings then
        wake_loop (reading + 1) required_readings chip
          (snd (chip_command ''R'' (address chip) 1000 0 s))
      else s)"
  by pat_completeness auto
termination
  by (relation "measure (\<lambda>(reading, required_readings, chip, s). nat (required_readings - reading))")
    auto

declare wake_loop.simps [simp del]

definition chip_wake :: "atlas_chip \<Rightarrow> machine \<Rightarrow> machine" where
  "chip_wake chip s0 =
     (let s1 = Serial_println
                 [Text ''Waking up '', IntText (chip_type_value (type chip)), Text '' chip''] s0;
          required_readings = 4;
          required_readings = (if type chip = dissolved_oxygen then 16 else required_readings);
          s2 = Serial_println
                 [Text ''Dumping '', IntText required_readings, Text '' readings''] s1
      in wake_loop 0 required_readings chip s2)"

subsection \<open>\<^verbatim>\<open>loop\<close>\<close>

definition loop :: "machine \<Rightarrow> machine" where
  "loop s0 =
     (let s1 = Serial_println [Text ''Waking up chip''] s0;
          s2 = chip_wake (ph_chip s1) s1;
          s3 = Serial_println [Text ''Last reading: '', FloatText (last_reading s2)] s2;
          (chip, s4) = get_reading (ph_chip s3) s3;
          s5 = s4\<lparr>ph_chip := chip\<rparr>;
          s6 = Serial_println [Text ''This reading: '', Text (data (ph_chip s5))] s5;
          s7 = (if fp_gt (fabs (fp_sub (atof (data (ph_chip s6))) (last_reading s6)))
                     delta_to_publish
                then
                  let t1 = s6\<lparr>last_reading := to_float (atof (data (ph_chip s6)))\<rparr>;
                      t2 = Serial_println
                             [Text ''Detected sensor change greater than configured delta''] t1;
                      t3 = Serial_println
                             [Text ''Updating EEPROM with last sensor reading''] t2
                  in publish_data (data (ph_chip t3)) t3
                else s6);
          s8 = Serial_println [Text ''Putting chip to sleep''] s7;
          s9 = chip_sleep (ph_chip s8) s8;
          s10 = delay 15000 s9
      in Serial_println [Text ''Sleeping for 10 seconds''] s10)"

section \<open>The sketch with the debug macro\<close>

text \<open>
  The second sketch replaces the calls of \<^verbatim>\<open>Serial.println\<close> by the macro
  \<^verbatim>\<open>DEBUG_PRINT\<close>, which expands to nothing unless \<^verbatim>\<open>DEBUG_ENABLED\<close> is defined (its
  \<^verbatim>\<open>#define\<close> is commented out in the file).  The build flag is the first argument of the
  functions that use the macro.  With the flag, the macro prints the function's name,
  the line and the text on one line; the time stamp in front of them is left out.
\<close>

definition DEBUG_PRINT :: "bool \<Rightarrow> string \<Rightarrow> int \<Rightarrow> serial_item list \<Rightarrow> machine \<Rightarrow> machine" where
  "DEBUG_PRINT debug_enabled pretty_function line str s =
     (if debug_enabled
      then Serial_println ([Text '': '', Text pretty_function, Text '' '', IntText line, Text '' ''] @ str) s
      else s)"

definition System_sleep :: "int \<Rightarrow> machine \<Rightarrow> machine" where
  "System_sleep seconds s = s\<lparr>trace := trace s @ [DeepSleep seconds]\<rparr>"

function read_loop_dbg :: "int \<Rightarrow> int \<Rightarrow> string \<Rightarrow> machine \<Rightarrow> string \<times> machine" where
  "read_loop_dbg byte_num response_size reading s =
     (if byte_num < response_size - 1 then
        let (b, s') = Wire_read s
        in read_loop_dbg (byte_num + 1) response_size (reading @ [char_of b]) s'
      else (reading, s))"
  by pat_completeness auto
termination
  by (relation "measure (\<lambda>(byte_num, response_size, reading, s). nat (response_size - 1 - byte_num))")
    auto

declare read_loop_dbg.simps [simp del]

definition chip_command_dbg :: "string \<Rightarrow> byte \<Rightarrow> int \<Rightarrow> int \<Rightarrow> machine \<Rightarrow> string \<times> machine" where
  "chip_command_dbg command chip_address read_delay response_size s0 =
     (let response_data = [];
          s1 = Wire_beginTransmission chip_address s0;
          s2 = Wire_write command s1;
          s3 = Wire_endTransmission s2;
          s4 = delay read_delay s3
      in if response_size = 0 then (response_data, s4)
         else
           let s5 = Wire_requestFrom chip_address response_size s4;
               (response_code, s6) = Wire_read s5
           in if response_code = 1 then
                let (reading, s7) = read_loop_dbg 0 response_size [] s6
                in (String_of_chars (reading @ stack_garbage s7), s7)
              else if response_code = 2 then (''Request Failed'', s6)
              else if response_code = 254 then (pending_message, s6)
              else if response_code = 255 then (no_data_message, s6)
              else (response_data, s6))"

definition get_reading_dbg :: "atlas_chip \<Rightarrow> machine \<Rightarrow> atlas_chip \<times> machine" where
  "get_reading_dbg chip s =
     (case type chip of
        ph \<Rightarrow>
          let (r, s') = chip_command_dbg ''R'' (address chip) 1000 7 s
          in (chip\<lparr>data := r\<rparr>, s')
      | ec \<Rightarrow>
          let (r, s') = chip_command_dbg ''R'' (address chip) 1000 32 s
          in (chip\<lparr>data := r\<rparr>, s')
      | orp \<Rightarrow>
          let (r, s') = chip_command_dbg ''R'' (address chip) 1000 8 s
          in (chip\<lparr>data := r\<rparr>, s')
      | dissolved_oxygen \<Rightarrow>
          let (r, s') = chip_command_dbg ''R'' (address chip) 1000 14 s
          in (chip\<lparr>data := r\<rparr>, s'))"

definition publish_data_dbg :: "string \<Rightarrow> machine \<Rightarrow> machine" where
  "publish_data_dbg d s0 =
     (let s1 = udp_beginPacket remoteIP udp_local_port s0;
          s2 = udp_write (''aqpncs.'' @ device_id s1 @ '':'' @ d @ ''|g'') s1
      in udp_endPacket s2)"

definition chip_sleep_dbg :: "atlas_chip \<Rightarrow> machine \<Rightarrow> machine" where
  "chip_sleep_dbg chip s =
     (let sleep_command = ''SLEEP'';
          processing_delay = 300;
          expected_response = 0
      in snd (chip_command_dbg sleep_command (address chip) processing_delay expected_response s))"

function wake_loop_dbg :: "int \<Rightarrow> int \<Rightarrow> atlas_chip \<Rightarrow> machine \<Rightarrow> machine" where
  "wake_loop_dbg reading required_readings chip s =
     (if reading < required_readings then
        wake_loop_dbg (reading + 1) required_readings chip
          (snd (chip_command_dbg ''R'' (address chip) 1000 0 s))
      else s)"
  by pat_completeness auto
termination
  by (relation "measure (\<lambda>(reading, required_readings, chip, s). nat (required_readings - reading))")
    auto

declare wake_loop_dbg.simps [simp del]

definition chip_wake_dbg :: "bool \<Rightarrow> atlas_chip \<Rightarrow> machine \<Rightarrow> machine" where
  "chip_wake_dbg debug_enabled chip s0 =
     (let s1 = DEBUG_PRINT debug_enabled ''void chip_wake(atlas_chip)'' 149
                 [Text ''Waking up '', IntText (chip_type_value (type chip)), Text '' chip''] s0;
          required_readings = 4;
          required_readings = (if type chip = dissolved_oxygen then 16 else required_readings);
          s2 = DEBUG_PRINT debug_enabled ''void chip_wake(atlas_chip)'' 159
                 [Text ''Dumping '', IntText required_readings, Text '' readings''] s1
      in wake_loop_dbg 0 required_readings chip s2)"

definition loop_dbg :: "bool \<Rightarrow> machine \<Rightarrow> machine" where
  "loop_dbg debug_enabled s0 =
     (let s1 = DEBUG_PRINT debug_enabled ''void loop()'' 194 [Text ''Start of loop()''] s0;
          s2 = DEBUG_PRINT debug_enabled ''void loop()'' 195
                 [Text ''Waking up atlas chip from low power state''] s1;
          s3 = chip_wake_dbg debug_enabled (ph_chip s2) s2;
          s4 = DEBUG_PRINT debug_enabled ''void loop()'' 197
                 [Text ''Last reading: '', FloatText (last_reading s3)] s3;
          (chip, s5) = get_reading_dbg (ph_chip s4) s4;
          s6 = s5\<lparr>ph_chip := chip\<rparr>;
          s7 = DEBUG_PRINT debug_enabled ''void loop()'' 199
                 [Text ''This reading: '', Text (data (ph_chip s6))] s6;
          s8 = (if fp_gt (fabs (fp_sub (atof (data (ph_chip s7))) (last_reading s7)))
                     delta_to_publish
                then
                  let t1 = s7\<lparr>last_reading := to_float (atof (data (ph_chip s7)))\<rparr>;
                      t2 = DEBUG_PRINT debug_enabled ''void loop()'' 204
                             [Text ''New sensor reading differs from last reading more than configured delta'']
                             t1
                  in publish_data_dbg (data (ph_chip t2)) t2
                else s7);
          s9 = DEBUG_PRINT debug_enabled ''void loop()'' 208
                 [Text ''Putting atlas chip into low power mode''] s8;
          s10 = chip_sleep_dbg (ph_chip s9) s9;
          s11 = DEBUG_PRINT debug_enabled ''void loop()'' 210
                  [Text ''Putting electron into deep sleep''] s10
      in System_sleep 900 s11)"

subsection \<open>Auxiliary notions for the statements\<close>

text \<open>
  What the first \<^verbatim>\<open>Wire.read()\<close> after the next read request (of at least one byte)
  returns: the first byte of the peripheral's next answer, or \<open>-1\<close> without one.
\<close>

definition next_status :: "machine \<Rightarrow> int" where
  "next_status s = (case bus_replies s of (b # _) # _ \<Rightarrow> uint b | _ \<Rightarrow> - 1)"

text \<open>The events of one command that expects no response.\<close>

definition purge_events :: "atlas_chip \<Rightarrow> event list" where
  "purge_events chip = [Transmit (address chip) ''R'', Delay 1000]"

text \<open>
  The text that \<^verbatim>\<open>get_reading(&ph_chip)\<close> obtains in a cycle started in state \<open>s\<close>, and the
  condition of the \<^verbatim>\<open>if\<close> statement of \<^verbatim>\<open>loop\<close> on it.
\<close>

abbreviation measured :: "machine \<Rightarrow> string" where
  "measured s \<equiv> data (fst (get_reading (ph_chip s) s))"

abbreviation exceeds_delta :: "machine \<Rightarrow> bool" where
  "exceeds_delta s \<equiv>
     fp_gt (fabs (fp_sub (atof (measured s)) (last_reading s))) delta_to_publish"

text \<open>The response size that \<^verbatim>\<open>get_reading\<close> passes for each type of chip.\<close>

definition response_size_of :: "chip_type \<Rightarrow> int" where
  "response_size_of t = (case t of ph \<Rightarrow> 7 | ec \<Rightarrow> 32 | orp \<Rightarrow> 8 | dissolved_oxygen \<Rightarrow> 14)"

text \<open>
  A machine at the start of a cycle, with the chip as the sketch initialises it
  (\<^verbatim>\<open>{ .type = ph, .mode = i2c, .address = 0x63 }\<close>), idle buses and nothing sent yet.
\<close>

definition cycle_start :: "fp \<Rightarrow> string \<Rightarrow> byte list list \<Rightarrow> string \<Rightarrow> machine" where
  "cycle_start lr dev replies garbage =
     \<lparr>ph_chip = \<lparr>type = ph, mode = i2c, address = 0x63, data = []\<rparr>,
      last_reading = lr, device_id = dev,
      wire_tx = None, wire_rx = [], bus_replies = replies, stack_garbage = garbage,
      trace = [], udp_packet = None, udp_sent = [], serial_out = []\<rparr>"

text \<open>
  The machine after a first cycle that started with \<^verbatim>\<open>last_reading\<close> 1 and read \<^verbatim>\<open>0.050\<close>,
  with the peripheral's answer to the next read request still to come.
\<close>

definition after_publishing_0_05 :: "byte list \<Rightarrow> machine" where
  "after_publishing_0_05 next_reply =
     loop (cycle_start (Fin 1) ''dev'' [[1, 0x30, 0x2E, 0x30, 0x35, 0x30, 0], next_reply] [])"

section \<open>Properties of the library calls and of the loops\<close>

lemmas lib_defs = Wire_beginTransmission_def Wire_write_def Wire_endTransmission_def
  delay_def Wire_requestFrom_def Wire_read_def

lemma command_prefix:
  "delay d (Wire_endTransmission (Wire_write cmd (Wire_beginTransmission a s))) =
     s\<lparr>wire_tx := None, trace := trace s @ [Transmit a cmd, Delay d]\<rparr>"
  by (simp add: lib_defs)

lemma Wire_read_fst: "fst (Wire_read s) = (case wire_rx s of [] \<Rightarrow> - 1 | b # _ \<Rightarrow> uint b)"
  by (simp add: Wire_read_def split: list.splits)

lemma Wire_read_snd: "snd (Wire_read s) = s\<lparr>wire_rx := tl (wire_rx s)\<rparr>"
  by (simp add: Wire_read_def split: list.splits)

lemma read_loop_snd:
  "snd (read_loop i n acc s) = s\<lparr>wire_rx := drop (nat (n - 1 - i)) (wire_rx s)\<rparr>"
proof (induction i n acc s rule: read_loop.induct)
  case (1 i n acc s)
  show ?case
  proof (cases "i < n - 1")
    case True
    then have k: "nat (n - 1 - i) = Suc (nat (n - 1 - (i + 1)))" by simp
    show ?thesis
    proof (cases "wire_rx s")
      case Nil
      with True 1 show ?thesis by (subst read_loop.simps) (simp add: Wire_read_def)
    next
      case (Cons b bs)
      with True 1 k show ?thesis by (subst read_loop.simps) (simp add: Wire_read_def)
    qed
  next
    case False
    then show ?thesis by (subst read_loop.simps) simp
  qed
qed

lemma read_loop_fst:
  "fst (read_loop i n acc s) =
     acc @ map (\<lambda>b. char_of (uint b)) (take (nat (n - 1 - i)) (wire_rx s))
         @ replicate (nat (n - 1 - i) - length (wire_rx s)) (char_of (- 1 :: int))"
proof (induction i n acc s rule: read_loop.induct)
  case (1 i n acc s)
  show ?case
  proof (cases "i < n - 1")
    case True
    then have k: "nat (n - 1 - i) = Suc (nat (n - 1 - (i + 1)))" by simp
    show ?thesis
    proof (cases "wire_rx s")
      case Nil
      with True 1 k show ?thesis
        by (subst read_loop.simps) (simp add: Wire_read_def)
    next
      case (Cons b bs)
      with True 1 k show ?thesis by (subst read_loop.simps) (simp add: Wire_read_def)
    qed
  next
    case False
    then show ?thesis by (subst read_loop.simps) simp
  qed
qed

lemma chip_command_unfold:
  "chip_command cmd a d n s =
     (if n = 0 then ([], s\<lparr>wire_tx := None, trace := trace s @ [Transmit a cmd, Delay d]\<rparr>)
      else
        let s5 = Wire_requestFrom a n
                   (s\<lparr>wire_tx := None, trace := trace s @ [Transmit a cmd, Delay d]\<rparr>);
            code = fst (Wire_read s5);
            s6 = snd (Wire_read s5)
        in if code = 1 then
             (String_of_chars (fst (read_loop 0 n [] s6) @ stack_garbage s),
              snd (read_loop 0 n [] s6))
           else if code = 2 then (''Request Failed'', s6)
           else if code = 254 then (pending_message, s6)
           else if code = 255 then (no_data_message, s6)
           else ([], s6))"
  unfolding chip_command_def Let_def command_prefix
  by (simp add: split_beta read_loop_snd Wire_read_snd Wire_requestFrom_def)

lemmas chip_command_simps = chip_command_unfold Let_def read_loop_snd Wire_read_snd
  Wire_requestFrom_def

lemma chip_command_frame:
  "ph_chip (snd (chip_command cmd a d n s)) = ph_chip s"
  "last_reading (snd (chip_command cmd a d n s)) = last_reading s"
  "device_id (snd (chip_command cmd a d n s)) = device_id s"
  "stack_garbage (snd (chip_command cmd a d n s)) = stack_garbage s"
  "udp_packet (snd (chip_command cmd a d n s)) = udp_packet s"
  "udp_sent (snd (chip_command cmd a d n s)) = udp_sent s"
  "serial_out (snd (chip_command cmd a d n s)) = serial_out s"
  "wire_tx (snd (chip_command cmd a d n s)) = None"
  by (simp_all add: chip_command_simps)

lemma chip_command_trace:
  "trace (snd (chip_command cmd a d n s)) =
     trace s @ [Transmit a cmd, Delay d] @ (if n = 0 then [] else [Request a n])"
  by (simp add: chip_command_simps)

lemma chip_command_replies:
  "bus_replies (snd (chip_command cmd a d n s)) =
     (if n = 0 then bus_replies s else tl (bus_replies s))"
  by (simp add: chip_command_simps)

lemma chip_command_text_cong:
  "bus_replies s = bus_replies t \<Longrightarrow> stack_garbage s = stack_garbage t \<Longrightarrow>
     fst (chip_command cmd a d n s) = fst (chip_command cmd' a' d' n t)"
  by (simp add: chip_command_simps read_loop_fst Wire_read_fst)

lemma first_read_status:
  "1 \<le> n \<Longrightarrow> fst (Wire_read (Wire_requestFrom a n s)) = next_status s"
  by (cases "nat n") (auto simp add: Wire_read_fst Wire_requestFrom_def next_status_def split: list.splits)

lemma chip_command_zero:
  "chip_command cmd a d 0 s =
     ([], s\<lparr>wire_tx := None, trace := trace s @ [Transmit a cmd, Delay d]\<rparr>)"
  by (simp add: chip_command_unfold)

lemma wake_loop_closed:
  "wake_loop i n c s =
     (if i < n
      then s\<lparr>wire_tx := None,
             trace := trace s @ concat (replicate (nat (n - i)) (purge_events c))\<rparr>
      else s)"
proof (induction i n c s rule: wake_loop.induct)
  case (1 i n c s)
  show ?case
  proof (cases "i < n")
    case True
    then have k: "nat (n - i) = Suc (nat (n - (i + 1)))" by simp
    from True 1 show ?thesis
      by (subst wake_loop.simps) (simp add: chip_command_zero k purge_events_def)
  next
    case False
    then show ?thesis by (subst wake_loop.simps) simp
  qed
qed

lemma chip_wake_closed:
  "chip_wake c s =
     s\<lparr>wire_tx := None,
       trace := trace s @ concat (replicate (if type c = dissolved_oxygen then 16 else 4) (purge_events c)),
       serial_out := serial_out s @
         [[Text ''Waking up '', IntText (chip_type_value (type c)), Text '' chip''],
          [Text ''Dumping '', IntText (if type c = dissolved_oxygen then 16 else 4), Text '' readings'']]\<rparr>"
  by (simp add: chip_wake_def Let_def wake_loop_closed Serial_println_def)

lemma chip_sleep_closed:
  "chip_sleep c s =
     s\<lparr>wire_tx := None, trace := trace s @ [Transmit (address c) ''SLEEP'', Delay 300]\<rparr>"
  by (simp add: chip_sleep_def chip_command_zero)

lemma publish_data_closed:
  "publish_data d s =
     s\<lparr>udp_packet := None,
       udp_sent := udp_sent s @
         [(remoteIP, udp_local_port, ''aqpncs.'' @ device_id s @ '':'' @ d @ ''|g'')]\<rparr>"
  by (simp add: publish_data_def udp_beginPacket_def udp_write_def udp_endPacket_def)

lemma get_reading_unfold:
  "get_reading c s =
     (c\<lparr>data := fst (chip_command ''R'' (address c) 1000 (response_size_of (type c)) s)\<rparr>,
      snd (chip_command ''R'' (address c) 1000 (response_size_of (type c)) s))"
  by (simp add: get_reading_def response_size_of_def split_beta split: chip_type.splits)

lemma get_reading_cong:
  "bus_replies t = bus_replies s \<Longrightarrow> stack_garbage t = stack_garbage s \<Longrightarrow>
     fst (get_reading c t) = fst (get_reading c s)"
  by (simp add: get_reading_unfold chip_command_text_cong [of t s])

lemma get_reading_frame:
  "ph_chip (snd (get_reading c s)) = ph_chip s"
  "last_reading (snd (get_reading c s)) = last_reading s"
  "device_id (snd (get_reading c s)) = device_id s"
  "stack_garbage (snd (get_reading c s)) = stack_garbage s"
  "udp_packet (snd (get_reading c s)) = udp_packet s"
  "udp_sent (snd (get_reading c s)) = udp_sent s"
  "serial_out (snd (get_reading c s)) = serial_out s"
  "wire_tx (snd (get_reading c s)) = None"
  by (simp_all add: get_reading_unfold chip_command_frame)

lemma get_reading_fst_upd:
  "fst (get_reading c (s\<lparr>serial_out := so\<rparr>)) = fst (get_reading c s)"
  "fst (get_reading c (s\<lparr>trace := tr\<rparr>)) = fst (get_reading c s)"
  "fst (get_reading c (s\<lparr>wire_tx := tx\<rparr>)) = fst (get_reading c s)"
  by (rule get_reading_cong; simp)+

lemma chip_command_more:
  "machine.more (snd (chip_command cmd a d n s)) = machine.more s"
  by (simp add: chip_command_simps)

lemma chip_command_rx_cong:
  "bus_replies t = bus_replies s \<Longrightarrow> wire_rx t = wire_rx s \<Longrightarrow>
     wire_rx (snd (chip_command cmd a d n t)) = wire_rx (snd (chip_command cmd' a' d' n s))"
  by (simp add: chip_command_simps Wire_read_fst)

lemmas chip_command_fields = chip_command_frame chip_command_trace chip_command_replies
  chip_command_more

lemma chip_command_upd_serial:
  "snd (chip_command cmd a d n (s\<lparr>serial_out := so\<rparr>)) =
     (snd (chip_command cmd a d n s))\<lparr>serial_out := so\<rparr>"
  apply (rule machine.equality)
  apply (simp_all add: chip_command_fields)
  apply (rule chip_command_rx_cong; simp)
  done

lemma chip_command_upd_tx:
  "snd (chip_command cmd a d n (s\<lparr>wire_tx := tx\<rparr>)) = snd (chip_command cmd a d n s)"
  apply (rule machine.equality)
  apply (simp_all add: chip_command_fields)
  apply (rule chip_command_rx_cong; simp)
  done

lemma chip_command_upd_trace:
  "snd (chip_command cmd a d n (s\<lparr>trace := tr\<rparr>)) =
     (snd (chip_command cmd a d n s))
       \<lparr>trace := tr @ [Transmit a cmd, Delay d] @ (if n = 0 then [] else [Request a n])\<rparr>"
  apply (rule machine.equality)
  apply (simp_all add: chip_command_fields)
  apply (rule chip_command_rx_cong; simp)
  done

lemmas chip_command_upd = chip_command_upd_serial chip_command_upd_tx chip_command_upd_trace

lemma get_reading_snd_upd:
  "snd (get_reading c (s\<lparr>serial_out := so\<rparr>)) = (snd (get_reading c s))\<lparr>serial_out := so\<rparr>"
  "snd (get_reading c (s\<lparr>wire_tx := tx\<rparr>)) = snd (get_reading c s)"
  "snd (get_reading c (s\<lparr>trace := tr\<rparr>)) =
     (snd (get_reading c s))\<lparr>trace := tr @ [Transmit (address c) ''R'', Delay 1000,
                                              Request (address c) (response_size_of (type c))]\<rparr>"
  by (simp_all add: get_reading_unfold chip_command_upd response_size_of_def
      split: chip_type.splits)

lemma get_reading_fst_fields:
  "type (fst (get_reading c s)) = type c"
  "mode (fst (get_reading c s)) = mode c"
  "address (fst (get_reading c s)) = address c"
  by (simp_all add: get_reading_unfold)

lemma get_reading_trace:
  "trace (snd (get_reading c s)) =
     trace s @ [Transmit (address c) ''R'', Delay 1000,
                Request (address c) (response_size_of (type c))]"
  "bus_replies (snd (get_reading c s)) = tl (bus_replies s)"
  "machine.more (snd (get_reading c s)) = machine.more s"
  by (simp_all add: get_reading_unfold chip_command_fields
      response_size_of_def split: chip_type.splits)

section \<open>One cycle of the first sketch, field by field\<close>

lemma loop_last_reading:
  "last_reading (loop s) = (if exceeds_delta s then to_float (atof (measured s)) else last_reading s)"
  by (simp add: loop_def Let_def split_beta Serial_println_def chip_wake_closed chip_sleep_closed
      publish_data_closed delay_def get_reading_frame get_reading_fst_upd)

lemma loop_udp_sent:
  "udp_sent (loop s) =
     (if exceeds_delta s
      then udp_sent s @ [(remoteIP, udp_local_port, ''aqpncs.'' @ device_id s @ '':'' @ measured s @ ''|g'')]
      else udp_sent s)"
  by (simp add: loop_def Let_def split_beta Serial_println_def chip_wake_closed chip_sleep_closed
      publish_data_closed delay_def get_reading_frame get_reading_fst_upd)

lemmas loop_simps = Let_def split_beta Serial_println_def chip_wake_closed chip_sleep_closed
  publish_data_closed delay_def get_reading_frame get_reading_fst_upd get_reading_snd_upd
  get_reading_fst_fields get_reading_trace

lemma loop_fields:
  "ph_chip (loop s) = fst (get_reading (ph_chip s) s)"
  "device_id (loop s) = device_id s"
  "wire_tx (loop s) = None"
  "wire_rx (loop s) = wire_rx (snd (get_reading (ph_chip s) s))"
  "bus_replies (loop s) = tl (bus_replies s)"
  "stack_garbage (loop s) = stack_garbage s"
  "udp_packet (loop s) = (if exceeds_delta s then None else udp_packet s)"
  "machine.more (loop s) = machine.more s"
  by (simp_all add: loop_def loop_simps)


lemma cycle_start_fields:
  "ph_chip (cycle_start lr dev replies g) = \<lparr>type = ph, mode = i2c, address = 0x63, data = []\<rparr>"
  "last_reading (cycle_start lr dev replies g) = lr"
  "device_id (cycle_start lr dev replies g) = dev"
  "bus_replies (cycle_start lr dev replies g) = replies"
  "stack_garbage (cycle_start lr dev replies g) = g"
  "trace (cycle_start lr dev replies g) = []"
  "udp_sent (cycle_start lr dev replies g) = []"
  by (simp_all add: cycle_start_def)

lemma atof_error_texts:
  "atof ''Request Failed'' = Fin 0"
  "atof pending_message = Fin 0"
  "atof no_data_message = Fin 0"
  "atof [] = Fin 0"
  "atof ''0'' = Fin 0"
  by code_simp+

lemma to_float_zero: "to_float (Fin 0) = Fin 0"
  by (simp add: to_float_def float_of_rat_def ieee_round_def)

text \<open>The threshold is the \<^verbatim>\<open>float\<close> nearest to 0.05, which is a little above 0.05.\<close>

lemma delta_to_publish_value: "delta_to_publish = Fin (13421773 / 268435456)"
  by code_simp

text \<open>The condition of the \<^verbatim>\<open>if\<close> statement of \<^verbatim>\<open>loop\<close>, written out.\<close>

lemma exceeds_iff:
  "fp_gt (fabs x) delta_to_publish \<longleftrightarrow>
     (case x of Fin d \<Rightarrow> 13421773 / 268435456 < \<bar>d\<bar> | PInf \<Rightarrow> True | NInf \<Rightarrow> True | NaN \<Rightarrow> False)"
  by (cases x) (simp_all add: fabs_def fp_gt_def delta_to_publish_value)

lemma get_reading_data_cong:
  "type c = type c' \<Longrightarrow> bus_replies t = bus_replies s \<Longrightarrow> stack_garbage t = stack_garbage s \<Longrightarrow>
     data (fst (get_reading c t)) = data (fst (get_reading c' s))"
  by (simp add: get_reading_unfold chip_command_text_cong [of t s])

lemma after_publishing_0_05_fields:
  "last_reading (after_publishing_0_05 r) = Fin (13421773 / 268435456)"
  "udp_sent (after_publishing_0_05 r) = [((159, 203, 144, 95), 8888, ''aqpncs.dev:0.050|g'')]"
  "device_id (after_publishing_0_05 r) = ''dev''"
  "measured (after_publishing_0_05 r) = measured (cycle_start (Fin 0) ''dev'' [r] [])"
proof -
  let ?s = "cycle_start (Fin 1) ''dev'' [[1, 0x30, 0x2E, 0x30, 0x35, 0x30, 0], r] []"
  have m: "measured ?s = measured (cycle_start (Fin 1) ''dev'' [[1, 0x30, 0x2E, 0x30, 0x35, 0x30, 0]] [])"
    by (simp add: get_reading_unfold cycle_start_fields chip_command_simps Wire_read_fst read_loop_fst)
  have "measured (cycle_start (Fin 1) ''dev'' [[1, 0x30, 0x2E, 0x30, 0x35, 0x30, 0]] []) = ''0.050''"
    by code_simp
  with m have ms: "measured ?s = ''0.050''" by simp
  have e: "fp_gt (fabs (fp_sub (atof ''0.050'') (Fin 1))) delta_to_publish" by code_simp
  have f: "to_float (atof ''0.050'') = Fin (13421773 / 268435456)" by code_simp
  show "last_reading (after_publishing_0_05 r) = Fin (13421773 / 268435456)"
    by (simp add: after_publishing_0_05_def loop_last_reading ms e f cycle_start_fields(2-7))
  show "udp_sent (after_publishing_0_05 r) = [((159, 203, 144, 95), 8888, ''aqpncs.dev:0.050|g'')]"
    by (simp add: after_publishing_0_05_def loop_udp_sent ms e cycle_start_fields(2-7)
        remoteIP_def udp_local_port_def)
  show "device_id (after_publishing_0_05 r) = ''dev''"
    by (simp add: after_publishing_0_05_def loop_fields cycle_start_fields)
  show "measured (after_publishing_0_05 r) = measured (cycle_start (Fin 0) ''dev'' [r] [])"
    by (rule get_reading_data_cong)
      (simp_all add: after_publishing_0_05_def loop_fields get_reading_fst_fields cycle_start_fields)
qed

section \<open>The second sketch agrees with the first\<close>

lemma read_loop_dbg_eq: "read_loop_dbg = read_loop"
proof (intro ext)
  fix i n acc s
  show "read_loop_dbg i n acc s = read_loop i n acc s"
  proof (induction i n acc s rule: read_loop.induct)
    case (1 i n acc s)
    show ?case
    proof (cases "i < n - 1")
      case True
      with 1 show ?thesis
        by (subst read_loop_dbg.simps, subst read_loop.simps) (simp add: split_beta)
    next
      case False
      then show ?thesis
        by (subst read_loop_dbg.simps, subst read_loop.simps) simp
    qed
  qed
qed

lemma chip_command_dbg_eq: "chip_command_dbg = chip_command"
  unfolding chip_command_dbg_def chip_command_def read_loop_dbg_eq ..

lemma get_reading_dbg_eq: "get_reading_dbg = get_reading"
  unfolding get_reading_dbg_def get_reading_def chip_command_dbg_eq ..

lemma publish_data_dbg_eq: "publish_data_dbg = publish_data"
  unfolding publish_data_dbg_def publish_data_def ..

lemma chip_sleep_dbg_eq: "chip_sleep_dbg = chip_sleep"
  unfolding chip_sleep_dbg_def chip_sleep_def chip_command_dbg_eq ..

lemma wake_loop_dbg_eq: "wake_loop_dbg = wake_loop"
proof (intro ext)
  fix i n c s
  show "wake_loop_dbg i n c s = wake_loop i n c s"
  proof (induction i n c s rule: wake_loop.induct)
    case (1 i n c s)
    show ?case
    proof (cases "i < n")
      case True
      with 1 show ?thesis
        by (subst wake_loop_dbg.simps, subst wake_loop.simps) (simp add: chip_command_dbg_eq)
    next
      case False
      then show ?thesis
        by (subst wake_loop_dbg.simps, subst wake_loop.simps) simp
    qed
  qed
qed

lemma DEBUG_PRINT_closed:
  "DEBUG_PRINT dbg f l str s =
     s\<lparr>serial_out := serial_out s @
          (if dbg then [[Text '': '', Text f, Text '' '', IntText l, Text '' ''] @ str] else [])\<rparr>"
  by (simp add: DEBUG_PRINT_def Serial_println_def)

lemma chip_wake_dbg_closed:
  "chip_wake_dbg dbg c s =
     s\<lparr>wire_tx := None,
       trace := trace s @ concat (replicate (if type c = dissolved_oxygen then 16 else 4) (purge_events c)),
       serial_out := serial_out (chip_wake_dbg dbg c s)\<rparr>"
  by (simp add: chip_wake_dbg_def DEBUG_PRINT_closed Let_def wake_loop_dbg_eq wake_loop_closed)

lemma chip_wake_dbg_fields:
  "ph_chip (chip_wake_dbg dbg c s) = ph_chip s"
  "last_reading (chip_wake_dbg dbg c s) = last_reading s"
  "device_id (chip_wake_dbg dbg c s) = device_id s"
  "wire_tx (chip_wake_dbg dbg c s) = None"
  "wire_rx (chip_wake_dbg dbg c s) = wire_rx s"
  "bus_replies (chip_wake_dbg dbg c s) = bus_replies s"
  "stack_garbage (chip_wake_dbg dbg c s) = stack_garbage s"
  "trace (chip_wake_dbg dbg c s) =
     trace s @ concat (replicate (if type c = dissolved_oxygen then 16 else 4) (purge_events c))"
  "udp_packet (chip_wake_dbg dbg c s) = udp_packet s"
  "udp_sent (chip_wake_dbg dbg c s) = udp_sent s"
  "machine.more (chip_wake_dbg dbg c s) = machine.more s"
  by (subst chip_wake_dbg_closed, simp)+

lemma DEBUG_PRINT_fields:
  "ph_chip (DEBUG_PRINT dbg f l str s) = ph_chip s"
  "last_reading (DEBUG_PRINT dbg f l str s) = last_reading s"
  "device_id (DEBUG_PRINT dbg f l str s) = device_id s"
  "wire_tx (DEBUG_PRINT dbg f l str s) = wire_tx s"
  "wire_rx (DEBUG_PRINT dbg f l str s) = wire_rx s"
  "bus_replies (DEBUG_PRINT dbg f l str s) = bus_replies s"
  "stack_garbage (DEBUG_PRINT dbg f l str s) = stack_garbage s"
  "trace (DEBUG_PRINT dbg f l str s) = trace s"
  "udp_packet (DEBUG_PRINT dbg f l str s) = udp_packet s"
  "udp_sent (DEBUG_PRINT dbg f l str s) = udp_sent s"
  "machine.more (DEBUG_PRINT dbg f l str s) = machine.more s"
  by (simp_all add: DEBUG_PRINT_closed)

lemma get_reading_rx_cong:
  "bus_replies t = bus_replies s \<Longrightarrow> wire_rx t = wire_rx s \<Longrightarrow>
     wire_rx (snd (get_reading c t)) = wire_rx (snd (get_reading c s))"
  by (simp add: get_reading_unfold chip_command_rx_cong [of t s])

lemma get_reading_cong_simps:
  "fst (get_reading c (DEBUG_PRINT dbg f l str s)) = fst (get_reading c s)"
  "fst (get_reading c (chip_wake_dbg dbg c' s)) = fst (get_reading c s)"
  "wire_rx (snd (get_reading c (DEBUG_PRINT dbg f l str s))) = wire_rx (snd (get_reading c s))"
  "wire_rx (snd (get_reading c (chip_wake_dbg dbg c' s))) = wire_rx (snd (get_reading c s))"
  by (rule get_reading_cong get_reading_rx_cong;
      simp add: DEBUG_PRINT_fields chip_wake_dbg_fields)+

lemmas loop_dbg_simps = DEBUG_PRINT_fields System_sleep_def chip_wake_dbg_fields
  get_reading_cong_simps get_reading_dbg_eq publish_data_dbg_eq chip_sleep_dbg_eq


lemma loop_dbg_last_reading:
  "last_reading (loop_dbg dbg s) =
     (if exceeds_delta s then to_float (atof (measured s)) else last_reading s)"
  by (simp add: loop_dbg_def loop_dbg_simps loop_simps)

lemma loop_dbg_udp_sent:
  "udp_sent (loop_dbg dbg s) =
     (if exceeds_delta s
      then udp_sent s @ [(remoteIP, udp_local_port, ''aqpncs.'' @ device_id s @ '':'' @ measured s @ ''|g'')]
      else udp_sent s)"
  by (simp add: loop_dbg_def loop_dbg_simps loop_simps)


section \<open>The chip transport\<close>

text \<open>
  Claim C2.  For every command text, address and settle delay, \<^verbatim>\<open>chip_command\<close> called with
  response size 0 returns the empty text and issues no read request on the bus: the only
  events are the transmission of the command and the delay, the answers of the peripheral
  are not consumed and the receive buffer is left as it was.
\<close>

theorem chip_command_no_response:
  "fst (chip_command cmd a d 0 s) = []
   \<and> trace (snd (chip_command cmd a d 0 s)) = trace s @ [Transmit a cmd, Delay d]
   \<and> bus_replies (snd (chip_command cmd a d 0 s)) = bus_replies s
   \<and> wire_rx (snd (chip_command cmd a d 0 s)) = wire_rx s"
  by (simp add: chip_command_zero)

text \<open>
  With status 1 and a zero byte among the \<open>n - 1\<close> bytes that follow it, the text returned
  is made of the bytes before the first zero byte.
\<close>

lemma char_of_uint_zero: "char_of (uint (b::byte)) = CHR 0x00 \<longleftrightarrow> b = 0"
proof -
  have "take_bit 8 (uint b) = uint b"
    using uint_lt2p [of b] by (simp add: take_bit_int_eq_self)
  then show ?thesis
    by (simp add: char_of_eq_iff uint_0_iff)
qed

lemma chip_command_terminated:
  assumes "bus_replies s = (1 # bs) # rest" and "1 \<le> n"
    and "0 \<in> set (take (nat (n - 1)) bs)"
  shows "fst (chip_command cmd a d n s) = map (\<lambda>b. char_of (uint b)) (takeWhile (\<lambda>b. b \<noteq> 0) bs)"
proof -
  let ?f = "\<lambda>b::byte. char_of (uint b) :: char"
  let ?k = "nat (n - 1)"
  let ?P = "\<lambda>c. c \<noteq> CHR 0x00"
  from assms(2) have n: "nat n = Suc ?k" "n \<noteq> 0" by simp_all
  have returned: "fst (chip_command cmd a d n s) =
      String_of_chars (map ?f (take ?k bs) @ replicate (?k - length (take ?k bs)) (char_of (- 1 :: int))
        @ stack_garbage s)"
    using assms(1) n
    by (simp add: chip_command_unfold Let_def Wire_requestFrom_def Wire_read_fst Wire_read_snd
        read_loop_fst)
  from assms(3) have "?f 0 \<in> ?f ` set (take ?k bs)" by (rule imageI)
  then have "?f 0 \<in> set (map ?f (take ?k bs))" by (simp only: set_map)
  moreover have "\<not> ?P (?f 0)" by (simp add: char_of_uint_zero [of 0, simplified])
  ultimately have "takeWhile ?P (map ?f (take ?k bs) @ replicate (?k - length (take ?k bs)) (char_of (- 1 :: int))
        @ stack_garbage s) = takeWhile ?P (map ?f (take ?k bs))"
    by (rule takeWhile_append1)
  also have "\<dots> = map ?f (takeWhile (\<lambda>b. b \<noteq> 0) (take ?k bs))"
    by (simp add: takeWhile_map comp_def char_of_uint_zero)
  also have "takeWhile (\<lambda>b. b \<noteq> 0) (take ?k bs) = takeWhile (\<lambda>b. b \<noteq> 0) (take ?k bs @ drop ?k bs)"
    using assms(3) by (simp add: takeWhile_append1 [of 0] del: append_take_drop_id)
  finally show ?thesis
    by (simp add: returned String_of_chars_def)
qed

text \<open>
  Claim C3 says that for every response size \<open>n \<ge> 1\<close>, with status 1, the text returned
  is made of the \<open>n - 1\<close> bytes read after the status byte, cut at the first zero byte.
  That holds when one of these bytes is zero (lemma \<open>chip_command_terminated\<close>).  The
  array \<^verbatim>\<open>reading\<close> gets these bytes but no terminator, so when none of them is zero
  \<^verbatim>\<open>String(reading)\<close> goes on into memory that the function never wrote.  A pH chip that
  answers \<^verbatim>\<open>10.000\<close> fills all six bytes after the status byte; with a \<^verbatim>\<open>9\<close> and a zero
  byte behind them in memory the text returned is \<^verbatim>\<open>10.0009\<close>, while the six bytes read,
  as a text, are \<^verbatim>\<open>10.000\<close>.
\<close>

theorem chip_command_unterminated:
  "fst (chip_command ''R'' 0x63 1000 7
         (cycle_start (Fin 0) ''dev'' [[1, 0x31, 0x30, 0x2E, 0x30, 0x30, 0x30]] [CHR ''9'', CHR 0x00]))
     = ''10.0009''
   \<and> String_of_chars (map (\<lambda>b. char_of (uint b)) [0x31, 0x30, 0x2E, 0x30, 0x30, 0x30 :: byte])
     = ''10.000''"
  by code_simp

text \<open>
  Claim C5.  For every response size of at least 1, the first byte read back selects the
  text that \<^verbatim>\<open>chip_command\<close> returns: 2 gives \<^verbatim>\<open>Request Failed\<close>, 254 the pending message,
  255 the no-data message, and every code other than 1, 2, 254 and 255 (also the \<open>-1\<close> of
  an empty receive buffer) falls through the \<^verbatim>\<open>switch\<close> and gives the empty text.
\<close>

theorem chip_command_status:
  assumes "1 \<le> n"
  shows "(next_status s = 2 \<longrightarrow> fst (chip_command cmd a d n s) = ''Request Failed'')
       \<and> (next_status s = 254 \<longrightarrow> fst (chip_command cmd a d n s) = pending_message)
       \<and> (next_status s = 255 \<longrightarrow> fst (chip_command cmd a d n s) = no_data_message)
       \<and> (next_status s \<notin> {1, 2, 254, 255} \<longrightarrow> fst (chip_command cmd a d n s) = [])"
proof -
  have "fst (Wire_read (Wire_requestFrom a n
          (s\<lparr>wire_tx := None, trace := trace s @ [Transmit a cmd, Delay d]\<rparr>))) = next_status s"
    using assms by (simp add: first_read_status next_status_def)
  with assms show ?thesis
    by (simp add: chip_command_unfold Let_def)
qed

theorem chip_command_status_witness:
  "fst (chip_command ''R'' 0x63 1000 7 (cycle_start (Fin 0) ''id'' [[2]] [])) = ''Request Failed''
   \<and> fst (chip_command ''R'' 0x63 1000 7 (cycle_start (Fin 0) ''id'' [[254]] [])) = pending_message
   \<and> fst (chip_command ''R'' 0x63 1000 7 (cycle_start (Fin 0) ''id'' [[255]] [])) = no_data_message
   \<and> fst (chip_command ''R'' 0x63 1000 7 (cycle_start (Fin 0) ''id'' [[3]] [])) = []
   \<and> fst (chip_command ''R'' 0x63 1000 7 (cycle_start (Fin 0) ''id'' [] [])) = []"
  using chip_command_status [of 7 "cycle_start (Fin 0) ''id'' [[2]] []" "''R''" "0x63" 1000]
    chip_command_status [of 7 "cycle_start (Fin 0) ''id'' [[254]] []" "''R''" "0x63" 1000]
    chip_command_status [of 7 "cycle_start (Fin 0) ''id'' [[255]] []" "''R''" "0x63" 1000]
    chip_command_status [of 7 "cycle_start (Fin 0) ''id'' [[3]] []" "''R''" "0x63" 1000]
    chip_command_status [of 7 "cycle_start (Fin 0) ''id'' [] []" "''R''" "0x63" 1000]
  by (simp add: next_status_def cycle_start_def)

section \<open>The chip controller\<close>

lemma purge_funpow:
  "((\<lambda>t. snd (chip_command ''R'' (address c) 1000 0 t)) ^^ k) s =
     (if k = 0 then s
      else s\<lparr>wire_tx := None, trace := trace s @ concat (replicate k (purge_events c))\<rparr>)"
proof (induction k arbitrary: s)
  case 0
  show ?case by simp
next
  case (Suc k)
  let ?f = "\<lambda>t. snd (chip_command ''R'' (address c) 1000 0 t)"
  have "(?f ^^ Suc k) s = (?f ^^ k) (?f s)"
    by (simp only: funpow_Suc_right o_apply)
  also have "\<dots> = s\<lparr>wire_tx := None,
                     trace := trace s @ concat (replicate (Suc k) (purge_events c))\<rparr>"
    by (subst Suc) (simp add: chip_command_zero purge_events_def)
  finally show ?case by simp
qed

text \<open>
  Claim C4.  For every chip, \<^verbatim>\<open>chip_wake\<close> issues the command \<^verbatim>\<open>R\<close> with delay 1000 and
  response size 0 exactly 16 times for a dissolved oxygen chip and exactly 4 times for any
  other type, with no early exit: its trace is that many transmissions of \<^verbatim>\<open>R\<close>, each
  followed by the delay, with no read request; no answer of the peripheral is consumed;
  and, the serial output aside, the state it returns is that many calls of
  \<^verbatim>\<open>chip_command("R", chip.address, 1000, 0)\<close> one after the other.  The function of the
  second sketch leaves the same trace.
\<close>

theorem chip_wake_purges:
  "trace (chip_wake chip s) =
     trace s @ concat (replicate (if type chip = dissolved_oxygen then 16 else 4)
                         [Transmit (address chip) ''R'', Delay 1000])
   \<and> bus_replies (chip_wake chip s) = bus_replies s
   \<and> chip_wake chip s =
       ((\<lambda>t. snd (chip_command ''R'' (address chip) 1000 0 t))
          ^^ (if type chip = dissolved_oxygen then 16 else 4))
         (s\<lparr>serial_out := serial_out (chip_wake chip s)\<rparr>)
   \<and> trace (chip_wake_dbg dbg chip s) = trace (chip_wake chip s)
   \<and> bus_replies (chip_wake_dbg dbg chip s) = bus_replies s"
  by (simp add: chip_wake_closed purge_funpow purge_events_def chip_wake_dbg_fields)

text \<open>
  Claim C7.  For every chip, \<^verbatim>\<open>get_reading\<close> issues the command \<^verbatim>\<open>R\<close> with a delay of 1000 ms
  and the response size 7 for a pH chip, 32 for EC, 8 for ORP and 14 for dissolved oxygen,
  and stores the text that the command returns into the field \<^verbatim>\<open>data\<close> of the chip,
  whatever the field held before.
\<close>

theorem get_reading_command:
  "(let n = (case type chip of ph \<Rightarrow> 7 | ec \<Rightarrow> 32 | orp \<Rightarrow> 8 | dissolved_oxygen \<Rightarrow> 14);
        r = chip_command ''R'' (address chip) 1000 n s
    in get_reading chip s = (chip\<lparr>data := fst r\<rparr>, snd r)
       \<and> trace (snd (get_reading chip s)) =
           trace s @ [Transmit (address chip) ''R'', Delay 1000, Request (address chip) n])"
  by (simp add: get_reading_unfold response_size_of_def chip_command_trace Let_def
      split: chip_type.splits)

text \<open>
  Claim C10.  \<^verbatim>\<open>chip_wake\<close> and \<^verbatim>\<open>chip_sleep\<close> get the chip by value and leave the chip of the
  sketch as it is, in all its fields (so does \<^verbatim>\<open>chip_wake\<close> of the second sketch);
  \<^verbatim>\<open>get_reading\<close> changes the field \<^verbatim>\<open>data\<close> of the chip it is given and leaves its type, mode
  and address unchanged.
\<close>

theorem chip_frame:
  "ph_chip (chip_wake chip s) = ph_chip s
   \<and> ph_chip (chip_sleep chip s) = ph_chip s
   \<and> fst (get_reading chip s) = chip\<lparr>data := data (fst (get_reading chip s))\<rparr>
   \<and> type (fst (get_reading chip s)) = type chip
   \<and> mode (fst (get_reading chip s)) = mode chip
   \<and> address (fst (get_reading chip s)) = address chip
   \<and> ph_chip (snd (get_reading chip s)) = ph_chip s
   \<and> ph_chip (chip_wake_dbg dbg chip s) = ph_chip s"
  by (simp add: chip_wake_closed chip_sleep_closed get_reading_unfold chip_command_frame
      chip_wake_dbg_fields)

section \<open>The publisher\<close>

text \<open>
  Claim C6.  For every device id and every value text, \<^verbatim>\<open>publish_data\<close> sends exactly one
  UDP datagram, to the address 159.203.144.95 and the port 8888, whose payload is the
  line \<^verbatim>\<open>aqpncs.<device id>:<value>|g\<close>; it changes nothing else of the state but the
  packet under construction.
\<close>

theorem publish_data_datagram:
  "udp_sent (publish_data d s) =
     udp_sent s @ [((159, 203, 144, 95), 8888, ''aqpncs.'' @ device_id s @ '':'' @ d @ ''|g'')]
   \<and> publish_data d s = s\<lparr>udp_packet := None, udp_sent := udp_sent (publish_data d s)\<rparr>"
  by (simp add: publish_data_closed remoteIP_def udp_local_port_def)

section \<open>The main cycle\<close>

text \<open>
  Claim C1, with the threshold and the roundings of the code.  Let \<open>d\<close> be the difference,
  computed in \<^verbatim>\<open>double\<close>, between the number that \<^verbatim>\<open>atof\<close> parses from the new reading and
  \<^verbatim>\<open>last_reading\<close>.  In a cycle, \<^verbatim>\<open>publish_data\<close> is called if and only if \<open>\<bar>d\<bar>\<close> exceeds
  13421773 / 2^28, the \<^verbatim>\<open>float\<close> nearest to 0.05 and a little above it (an infinite \<open>d\<close>
  exceeds it, a NaN does not).  When it is called, one datagram with the new reading is
  sent and \<^verbatim>\<open>last_reading\<close> becomes the parsed number rounded to \<^verbatim>\<open>float\<close>; otherwise no
  datagram is sent and \<^verbatim>\<open>last_reading\<close> keeps its value.  The cycle of the second sketch
  sends the same datagrams and retains the same value.
\<close>

theorem loop_threshold:
  "(let d = fp_sub (atof (measured s)) (last_reading s);
        publish = (case d of Fin x \<Rightarrow> 13421773 / 268435456 < \<bar>x\<bar>
                   | PInf \<Rightarrow> True | NInf \<Rightarrow> True | NaN \<Rightarrow> False)
    in (publish \<longrightarrow>
          udp_sent (loop s) =
            udp_sent s @ [((159, 203, 144, 95), 8888,
                           ''aqpncs.'' @ device_id s @ '':'' @ measured s @ ''|g'')]
          \<and> last_reading (loop s) = to_float (atof (measured s)))
       \<and> (\<not> publish \<longrightarrow>
          udp_sent (loop s) = udp_sent s \<and> last_reading (loop s) = last_reading s)
       \<and> udp_sent (loop_dbg dbg s) = udp_sent (loop s)
       \<and> last_reading (loop_dbg dbg s) = last_reading (loop s))"
  by (simp add: Let_def loop_udp_sent loop_last_reading loop_dbg_udp_sent loop_dbg_last_reading
      exceeds_iff remoteIP_def udp_local_port_def)

theorem loop_threshold_witness:
  "udp_sent (loop (cycle_start (Fin 7) ''dev'' [[1, 0x37, 0x2E, 0x31, 0x30, 0, 0]] [])) =
     [((159, 203, 144, 95), 8888, ''aqpncs.dev:7.10|g'')]
   \<and> last_reading (loop (cycle_start (Fin 7) ''dev'' [[1, 0x37, 0x2E, 0x31, 0x30, 0, 0]] [])) =
       Fin (14889779 / 2097152)
   \<and> udp_sent (loop (cycle_start (Fin 7) ''dev'' [[1, 0x36, 0x2E, 0x39, 0x30, 0, 0]] [])) =
     [((159, 203, 144, 95), 8888, ''aqpncs.dev:6.90|g'')]
   \<and> last_reading (loop (cycle_start (Fin 7) ''dev'' [[1, 0x36, 0x2E, 0x39, 0x30, 0, 0]] [])) =
       Fin (14470349 / 2097152)
   \<and> udp_sent (loop (cycle_start (Fin 7) ''dev'' [[1, 0x37, 0x2E, 0x30, 0x32, 0, 0]] [])) = []
   \<and> last_reading (loop (cycle_start (Fin 7) ''dev'' [[1, 0x37, 0x2E, 0x30, 0x32, 0, 0]] [])) =
       Fin 7"
proof -
  let ?s = "cycle_start (Fin 7) ''dev'' [[1, 0x37, 0x2E, 0x31, 0x30, 0, 0]] []"
  let ?u = "cycle_start (Fin 7) ''dev'' [[1, 0x36, 0x2E, 0x39, 0x30, 0, 0]] []"
  let ?t = "cycle_start (Fin 7) ''dev'' [[1, 0x37, 0x2E, 0x30, 0x32, 0, 0]] []"
  have ms: "measured ?s = ''7.10''" by code_simp
  have mu: "measured ?u = ''6.90''" by code_simp
  have mt: "measured ?t = ''7.02''" by code_simp
  have ds: "fp_sub (atof ''7.10'') (Fin 7) = Fin (56294995342131 / 562949953421312)" by code_simp
  have du: "fp_sub (atof ''6.90'') (Fin 7) = Fin (- (56294995342131 / 562949953421312))" by code_simp
  have dt: "fp_sub (atof ''7.02'') (Fin 7) = Fin (5629499534213 / 281474976710656)" by code_simp
  have fs: "to_float (atof ''7.10'') = Fin (14889779 / 2097152)" by code_simp
  have fu: "to_float (atof ''6.90'') = Fin (14470349 / 2097152)" by code_simp
  show ?thesis
    using loop_threshold [of ?s] loop_threshold [of ?u] loop_threshold [of ?t]
    by (simp add: Let_def ms mu mt ds du dt fs fu cycle_start_fields(2-7))
qed

text \<open>
  Claim C1 with the threshold 0.05 itself and the parsed number as the new baseline fails.
  A cycle that starts from \<^verbatim>\<open>last_reading\<close> 1 and reads \<^verbatim>\<open>0.050\<close> publishes it; \<^verbatim>\<open>atof\<close> gives
  the \<^verbatim>\<open>double\<close> nearest to 0.05, and \<^verbatim>\<open>last_reading\<close> becomes another number, the \<^verbatim>\<open>float\<close>
  nearest to 0.05.  The next cycle reads \<^verbatim>\<open>0.000\<close>: the difference to \<^verbatim>\<open>last_reading\<close> exceeds
  0.05, yet nothing is sent and \<^verbatim>\<open>last_reading\<close> stays.
\<close>

theorem loop_threshold_counterexample:
  "atof ''0.050'' = Fin (3602879701896397 / 72057594037927936)
   \<and> udp_sent (after_publishing_0_05 [1, 0x30, 0x2E, 0x30, 0x30, 0x30, 0]) =
       [((159, 203, 144, 95), 8888, ''aqpncs.dev:0.050|g'')]
   \<and> last_reading (after_publishing_0_05 [1, 0x30, 0x2E, 0x30, 0x30, 0x30, 0]) =
       Fin (13421773 / 268435456)
   \<and> measured (after_publishing_0_05 [1, 0x30, 0x2E, 0x30, 0x30, 0x30, 0]) = ''0.000''
   \<and> atof ''0.000'' = Fin 0
   \<and> (5 / 100 :: rat) < \<bar>0 - 13421773 / 268435456\<bar>
   \<and> udp_sent (loop (after_publishing_0_05 [1, 0x30, 0x2E, 0x30, 0x30, 0x30, 0])) =
       udp_sent (after_publishing_0_05 [1, 0x30, 0x2E, 0x30, 0x30, 0x30, 0])
   \<and> last_reading (loop (after_publishing_0_05 [1, 0x30, 0x2E, 0x30, 0x30, 0x30, 0])) =
       Fin (13421773 / 268435456)"
proof -
  let ?a = "after_publishing_0_05 [1, 0x30, 0x2E, 0x30, 0x30, 0x30, 0]"
  have p: "atof ''0.050'' = Fin (3602879701896397 / 72057594037927936)" by code_simp
  have z: "atof ''0.000'' = Fin 0" by code_simp
  have "measured (cycle_start (Fin 0) ''dev'' [[1, 0x30, 0x2E, 0x30, 0x30, 0x30, 0]] []) = ''0.000''"
    by code_simp
  then have m: "measured ?a = ''0.000''"
    by (simp only: after_publishing_0_05_fields)
  have e: "\<not> fp_gt (fabs (fp_sub (Fin 0) (Fin (13421773 / 268435456)))) delta_to_publish"
    by code_simp
  show ?thesis
    by (simp add: p z m e loop_udp_sent loop_last_reading after_publishing_0_05_fields(1-3))
qed

text \<open>
  Claim C8, with the threshold of the code.  When the reading is one of the fixed texts
  \<^verbatim>\<open>Request Failed\<close>, pending, no data, or the empty text, \<^verbatim>\<open>atof\<close> gives 0 for it, as it does
  for the reading \<^verbatim>\<open>0\<close>; the decision of the cycle is then whether \<open>\<bar>0 - last_reading\<bar>\<close>,
  computed in \<^verbatim>\<open>double\<close>, exceeds 13421773 / 2^28, the \<^verbatim>\<open>float\<close> nearest to 0.05.  When it
  does, the text itself is published and \<^verbatim>\<open>last_reading\<close> becomes 0; when it does not,
  nothing is sent and \<^verbatim>\<open>last_reading\<close> keeps its value.
\<close>

theorem error_reading_is_zero:
  assumes "measured s \<in> {''Request Failed'', pending_message, no_data_message, []}"
  shows "atof (measured s) = Fin 0
       \<and> atof (measured s) = atof ''0''
       \<and> (let publish = (case fp_sub (Fin 0) (last_reading s) of
                           Fin x \<Rightarrow> 13421773 / 268435456 < \<bar>x\<bar>
                         | PInf \<Rightarrow> True | NInf \<Rightarrow> True | NaN \<Rightarrow> False)
          in (publish \<longrightarrow>
                udp_sent (loop s) =
                  udp_sent s @ [((159, 203, 144, 95), 8888,
                                 ''aqpncs.'' @ device_id s @ '':'' @ measured s @ ''|g'')]
                \<and> last_reading (loop s) = Fin 0)
             \<and> (\<not> publish \<longrightarrow>
                udp_sent (loop s) = udp_sent s \<and> last_reading (loop s) = last_reading s))"
proof -
  from assms have z: "atof (measured s) = Fin 0"
    by (auto simp add: atof_error_texts)
  then show ?thesis
    by (simp add: Let_def loop_udp_sent loop_last_reading to_float_zero atof_error_texts
        exceeds_iff remoteIP_def udp_local_port_def)
qed

theorem error_reading_is_zero_witness:
  "measured (cycle_start (Fin 7) ''dev'' [[255]] []) = no_data_message
   \<and> udp_sent (loop (cycle_start (Fin 7) ''dev'' [[255]] [])) =
       [((159, 203, 144, 95), 8888, ''aqpncs.dev:'' @ no_data_message @ ''|g'')]
   \<and> last_reading (loop (cycle_start (Fin 7) ''dev'' [[255]] [])) = Fin 0
   \<and> measured (cycle_start (Fin 0) ''dev'' [[2]] []) = ''Request Failed''
   \<and> udp_sent (loop (cycle_start (Fin 0) ''dev'' [[2]] [])) = []
   \<and> last_reading (loop (cycle_start (Fin 0) ''dev'' [[2]] [])) = Fin 0"
proof -
  let ?s = "cycle_start (Fin 7) ''dev'' [[255]] []"
  let ?t = "cycle_start (Fin 0) ''dev'' [[2]] []"
  have ms: "measured ?s = no_data_message" by code_simp
  have mt: "measured ?t = ''Request Failed''" by code_simp
  have ds: "fp_sub (Fin 0) (Fin 7) = Fin (- 7)" by code_simp
  have dt: "fp_sub (Fin 0) (Fin 0) = Fin 0" by code_simp
  show ?thesis
    using error_reading_is_zero [of ?s] error_reading_is_zero [of ?t]
    by (simp add: Let_def ms mt ds dt cycle_start_fields(2-7))
qed

text \<open>
  Claim C8 with the threshold 0.05 itself fails.  After \<^verbatim>\<open>0.050\<close> was published,
  \<^verbatim>\<open>last_reading\<close> is the \<^verbatim>\<open>float\<close> nearest to 0.05; a cycle that then gets status 255 has the
  reading parsed to 0 and a difference that exceeds 0.05, yet the text is not published
  and \<^verbatim>\<open>last_reading\<close> does not become 0.
\<close>

theorem error_reading_is_zero_counterexample:
  "last_reading (after_publishing_0_05 [255]) = Fin (13421773 / 268435456)
   \<and> measured (after_publishing_0_05 [255]) = no_data_message
   \<and> atof no_data_message = Fin 0
   \<and> (5 / 100 :: rat) < \<bar>0 - 13421773 / 268435456\<bar>
   \<and> udp_sent (loop (after_publishing_0_05 [255])) = udp_sent (after_publishing_0_05 [255])
   \<and> last_reading (loop (after_publishing_0_05 [255])) = Fin (13421773 / 268435456)
   \<and> Fin (13421773 / 268435456) \<noteq> Fin 0"
proof -
  let ?a = "after_publishing_0_05 [255]"
  have "measured (cycle_start (Fin 0) ''dev'' [[255]] []) = no_data_message"
    by code_simp
  then have m: "measured ?a = no_data_message"
    by (simp only: after_publishing_0_05_fields)
  have e: "\<not> fp_gt (fabs (fp_sub (Fin 0) (Fin (13421773 / 268435456)))) delta_to_publish"
    by code_simp
  show ?thesis
    by (simp add: m e atof_error_texts loop_udp_sent loop_last_reading
        after_publishing_0_05_fields(1-3))
qed

section \<open>The two sketches\<close>


end
